theory Spec2Isabelle
  imports Complex_Main
begin

section \<open>The circuit animation of src/App.tsx\<close>

text \<open>
  The component \<open>App\<close> of src/App.tsx animates electrons drifting around a rectangular
  conductor, a battery that drains once per second, and short-lived electrons emitted by
  the battery. JavaScript numbers are modelled as \<open>real\<close>. Where the program compares
  a computed distance with a threshold (the removal of a battery electron), the rounding
  of every operation to a double is written out; elsewhere the arithmetic is exact. Calls
  of \<open>Math.random()\<close> are inputs of a frame.
\<close>

subsection \<open>Constants\<close>

definition OUTER_W :: real where "OUTER_W = 650"
definition OUTER_H :: real where "OUTER_H = 400"
definition CONDUCTOR_W :: real where "CONDUCTOR_W = 15"
definition TRACK_W :: real where "TRACK_W = 635"
definition TRACK_H :: real where "TRACK_H = 385"
definition PERIMETER :: real where "PERIMETER = 2 * (TRACK_W + TRACK_H)"
definition ELECTRON_COUNT :: nat where "ELECTRON_COUNT = 1000"
definition SPEED_PX_S :: real where "SPEED_PX_S = 20"
definition ELECTROLYTE_DRAIN_S :: real where "ELECTROLYTE_DRAIN_S = 5"
definition ION_DRAIN_S :: real where "ION_DRAIN_S = 5"
definition RAIL_OFFSET :: real where "RAIL_OFFSET = 7.5"

subsection \<open>Track geometry: \<open>getXY\<close>\<close>

text \<open>
  The object returned by \<open>getXY\<close>. The fields \<open>x\<close> and \<open>y\<close> of the source are named
  \<open>px\<close> and \<open>py\<close> here.
\<close>

record located =
  px :: real
  py :: real
  angle :: real
  isHorizontal :: bool

definition getXY :: "real \<Rightarrow> located" where
  "getXY trackPos =
    (if trackPos \<le> TRACK_W then
       \<lparr>px = RAIL_OFFSET + trackPos, py = RAIL_OFFSET, angle = 0, isHorizontal = True\<rparr>
     else if trackPos \<le> TRACK_W + TRACK_H then
       \<lparr>px = RAIL_OFFSET + TRACK_W, py = RAIL_OFFSET + (trackPos - TRACK_W),
        angle = 90, isHorizontal = False\<rparr>
     else if trackPos \<le> 2 * TRACK_W + TRACK_H then
       \<lparr>px = RAIL_OFFSET + TRACK_W - (trackPos - (TRACK_W + TRACK_H)),
        py = RAIL_OFFSET + TRACK_H, angle = 180, isHorizontal = True\<rparr>
     else
       \<lparr>px = RAIL_OFFSET, py = RAIL_OFFSET + TRACK_H - (trackPos - (2 * TRACK_W + TRACK_H)),
        angle = 270, isHorizontal = False\<rparr>)"

subsection \<open>The remainder operator of JavaScript\<close>

text \<open>
  \<open>a % b\<close> in JavaScript is \<open>a - b * q\<close>, where \<open>q\<close> is \<open>a / b\<close> truncated towards zero:
  the result has the sign of the dividend. The only divisor in the program is
  \<open>PERIMETER\<close>, so the case \<open>b = 0\<close> (NaN in JavaScript) never arises.
\<close>

definition trunc :: "real \<Rightarrow> int" where
  "trunc q = (if 0 \<le> q then \<lfloor>q\<rfloor> else \<lceil>q\<rceil>)"

definition js_rem :: "real \<Rightarrow> real \<Rightarrow> real" where
  "js_rem a b = a - b * of_int (trunc (a / b))"

subsection \<open>State of the component\<close>

text \<open>An element of the \<open>electrons\<close> array.\<close>

record electron =
  trackPos :: real
  transversePos :: real
  vx :: real
  vy :: real
  vfreq :: string

text \<open>
  An element of the \<open>batteryElectrons\<close> array; the fields \<open>id\<close>, \<open>x\<close> and \<open>y\<close> of the
  source are \<open>be_id\<close>, \<open>be_x\<close> and \<open>be_y\<close> here.
\<close>

record batteryElectron =
  be_id :: nat
  be_x :: real
  be_y :: real

text \<open>
  The state hooks and refs of \<open>App\<close>, and \<open>lastSecond\<close>, the local variable of the effect
  that owns the animation loop. (\<open>imageError\<close> only concerns rendering and is left out.)
\<close>

record sim =
  isCircuitClosed :: bool
  isBatteryDead :: bool
  electrolyteHeight :: real
  visibleIons :: real
  electrons :: "electron list"
  batteryElectrons :: "batteryElectron list"
  lastTimeRef :: real
  batteryElectronIdCounter :: nat
  lastSecond :: real

text \<open>
  The state after the first render and the mount effects: the hooks hold their initial
  values, and \<open>electrons\<close> holds the array built from \<open>Math.random()\<close>, here the
  parameter \<open>es\<close>.
\<close>

definition init :: "electron list \<Rightarrow> sim" where
  "init es =
    \<lparr>isCircuitClosed = False, isBatteryDead = False, electrolyteHeight = 75,
     visibleIons = 75, electrons = es, batteryElectrons = [], lastTimeRef = 0,
     batteryElectronIdCounter = 0, lastSecond = 0\<rparr>"

subsection \<open>One animation frame: \<open>loop\<close>\<close>

text \<open>
  The inputs of one call of \<open>loop\<close>: the timestamp passed by \<open>requestAnimationFrame\<close> and
  the three values \<open>Math.random()\<close> may return in that call (the spawn decision and the
  two coordinates of the spawn position).
\<close>

record frame =
  time :: real
  rnd_spawn :: real
  rnd_x :: real
  rnd_y :: real

text \<open>
  \<open>if (!lastTimeRef.current) lastTimeRef.current = time;
  const deltaTime = (time - lastTimeRef.current) / 1000;\<close>
  A baseline of 0 is falsy and is replaced by the current timestamp.
\<close>

definition deltaTime :: "real \<Rightarrow> sim \<Rightarrow> real" where
  "deltaTime t s = (t - (if lastTimeRef s = 0 then t else lastTimeRef s)) / 1000"

definition energized :: "sim \<Rightarrow> bool" where
  "energized s = (isCircuitClosed s \<and> \<not> isBatteryDead s)"

text \<open>The updater passed to \<open>setElectrons\<close>.\<close>

definition moveElectron :: "real \<Rightarrow> electron \<Rightarrow> electron" where
  "moveElectron dt e = e\<lparr>trackPos := js_rem (trackPos e + SPEED_PX_S * dt) PERIMETER\<rparr>"

text \<open>
  The updaters passed to \<open>setElectrolyteHeight\<close> (which calls \<open>setIsBatteryDead(true)\<close>
  when the new height is 0) and to \<open>setVisibleIons\<close>, followed by \<open>lastSecond = time\<close>.
\<close>

definition deplete :: "real \<Rightarrow> sim \<Rightarrow> sim" where
  "deplete t s =
    (let newH = max 0 (electrolyteHeight s - ELECTROLYTE_DRAIN_S);
         s1 = (if newH = 0 then s\<lparr>isBatteryDead := True\<rparr> else s)
     in s1\<lparr>electrolyteHeight := newH,
            visibleIons := max 0 (visibleIons s - ION_DRAIN_S),
            lastSecond := t\<rparr>)"

text \<open>The spawn of a battery electron when \<open>Math.random() > 0.7\<close>.\<close>

definition spawn :: "frame \<Rightarrow> sim \<Rightarrow> sim" where
  "spawn f s =
    (if rnd_spawn f > 0.7 then
       s\<lparr>batteryElectrons := batteryElectrons s @
            [\<lparr>be_id = batteryElectronIdCounter s,
              be_x = 350 + rnd_x f * 45,
              be_y = (RAIL_OFFSET - 37.5) + rnd_y f * 70\<rparr>],
         batteryElectronIdCounter := Suc (batteryElectronIdCounter s)\<rparr>
     else s)"

definition targetX :: real where "targetX = 325 + 75"
definition targetY :: real where "targetY = RAIL_OFFSET"


text \<open>
  The result of an arithmetic operation on doubles is the exact result rounded to the
  nearest double, ties to the even significand. A double has a significand of 53 bits;
  the unit in the last place of \<open>x\<close> is \<open>2\<close> to the power \<open>ulp_exp x\<close>, also in the
  subnormal range. Results beyond the range of doubles (infinities, NaN) are not
  modelled; they do not arise from coordinates on the screen.
\<close>

definition round_even :: "real \<Rightarrow> int" where
  "round_even r =
    (let n = \<lfloor>r\<rfloor>
     in if r - of_int n < 1 / 2 then n
        else if 1 / 2 < r - of_int n then n + 1
        else if even n then n else n + 1)"

definition ulp_exp :: "real \<Rightarrow> int" where
  "ulp_exp x = max \<lfloor>log 2 \<bar>x\<bar>\<rfloor> (- 1022) - 52"

definition fl64 :: "real \<Rightarrow> real" where
  "fl64 x =
    (if x = 0 then 0
     else of_int (round_even (x / 2 powr of_int (ulp_exp x))) * 2 powr of_int (ulp_exp x))"

text \<open>
  The function mapped over \<open>batteryElectrons\<close>, with the rounding of each operation. The
  second component of the result says whether the object returned by the source has the
  property \<open>dead\<close>, which the following \<open>filter\<close> tests with \<open>hasOwnProperty\<close>.
\<close>

definition slideBE :: "real \<Rightarrow> batteryElectron \<Rightarrow> batteryElectron \<times> bool" where
  "slideBE dt be =
    (let dx = fl64 (targetX - be_x be);
         dy = fl64 (targetY - be_y be);
         dist = fl64 (sqrt (fl64 (fl64 (dx * dx) + fl64 (dy * dy))))
     in if dist < 5 then (be\<lparr>be_x := targetX, be_y := targetY\<rparr>, True)
        else (be\<lparr>be_x := fl64 (be_x be + fl64 (fl64 (fl64 (dx / dist) * 100) * dt)),
                 be_y := fl64 (be_y be + fl64 (fl64 (fl64 (dy / dist) * 100) * dt))\<rparr>, False))"

definition slideAll :: "real \<Rightarrow> batteryElectron list \<Rightarrow> batteryElectron list" where
  "slideAll dt bes = map fst (filter (\<lambda>p. \<not> snd p) (map (slideBE dt) bes))"

text \<open>
  The body of \<open>loop\<close>. The flags \<open>isCircuitClosed\<close> and \<open>isBatteryDead\<close> are those of the
  render that created the effect; the state updates are applied in the order in
  which the source queues them.
\<close>

definition loop :: "frame \<Rightarrow> sim \<Rightarrow> sim" where
  "loop f s =
    (let dt = deltaTime (time f) s;
         s1 = s\<lparr>lastTimeRef := time f\<rparr>;
         s2 = (if isCircuitClosed s \<and> \<not> isBatteryDead s then
                 (let a = s1\<lparr>electrons := map (moveElectron dt) (electrons s1)\<rparr>;
                      b = (if time f - lastSecond a \<ge> 1000 then deplete (time f) a else a)
                  in spawn f b)
               else s1)
     in s2\<lparr>batteryElectrons := slideAll dt (batteryElectrons s2)\<rparr>)"

subsection \<open>The toggle and the restart of the effect\<close>

definition handleToggle :: "sim \<Rightarrow> sim" where
  "handleToggle s =
    (if isBatteryDead s then
       s\<lparr>electrolyteHeight := 75, visibleIons := 75,
         isBatteryDead := False, isCircuitClosed := False\<rparr>
     else s\<lparr>isCircuitClosed := \<not> isCircuitClosed s\<rparr>)"

text \<open>
  The effect that owns \<open>loop\<close> has the dependencies \<open>[isCircuitClosed, isBatteryDead]\<close>.
  When one of them has changed in a render, the effect is cleaned up and run again:
  \<open>let lastSecond = 0\<close> is executed anew. \<open>lastTimeRef\<close> is a ref of the component and
  keeps its value. \<open>commit old new\<close> is the state after the render that follows an
  update from \<open>old\<close> to \<open>new\<close>.
\<close>

definition commit :: "sim \<Rightarrow> sim \<Rightarrow> sim" where
  "commit old new =
    (if isCircuitClosed new \<noteq> isCircuitClosed old \<or> isBatteryDead new \<noteq> isBatteryDead old
     then new\<lparr>lastSecond := 0\<rparr> else new)"

definition tick :: "frame \<Rightarrow> sim \<Rightarrow> sim" where
  "tick f s = commit s (loop f s)"

definition click :: "sim \<Rightarrow> sim" where
  "click s = commit s (handleToggle s)"

datatype event = Frame frame | Click

fun step :: "event \<Rightarrow> sim \<Rightarrow> sim" where
  "step (Frame f) s = tick f s"
| "step Click s = click s"

fun run :: "event list \<Rightarrow> sim \<Rightarrow> sim" where
  "run [] s = s"
| "run (e # es) s = run es (step e s)"

fun ticks :: "frame list \<Rightarrow> sim \<Rightarrow> sim" where
  "ticks [] s = s"
| "ticks (f # fs) s = ticks fs (tick f s)"

subsection \<open>Runs and observers used in the statements\<close>

text \<open>
  The condition under which a call of \<open>loop\<close> runs the depletion step, and the number of
  depletion steps in a run of frames.
\<close>

definition depletes :: "frame \<Rightarrow> sim \<Rightarrow> bool" where
  "depletes f s = (isCircuitClosed s \<and> \<not> isBatteryDead s \<and> time f - lastSecond s \<ge> 1000)"

fun depletions :: "frame list \<Rightarrow> sim \<Rightarrow> nat" where
  "depletions [] s = 0"
| "depletions (f # fs) s = (if depletes f s then 1 else 0) + depletions fs (tick f s)"

text \<open>The values of \<open>deltaTime\<close> in a run of frames.\<close>

fun deltas :: "frame list \<Rightarrow> sim \<Rightarrow> real list" where
  "deltas [] s = []"
| "deltas (f # fs) s = deltaTime (time f) s # deltas fs (tick f s)"



text \<open>All electrons are on the track, in \<open>[0, PERIMETER)\<close>.\<close>

definition in_track :: "electron list \<Rightarrow> bool" where
  "in_track es = list_all (\<lambda>e. 0 \<le> trackPos e \<and> trackPos e < PERIMETER) es"

text \<open>No frame of the run has a timestamp before the one of the frame before it.\<close>

fun monotone_clock :: "real \<Rightarrow> event list \<Rightarrow> bool" where
  "monotone_clock t [] = True"
| "monotone_clock t (Frame f # evs) = (t \<le> time f \<and> monotone_clock (time f) evs)"
| "monotone_clock t (Click # evs) = monotone_clock t evs"

text \<open>A frame in which every \<open>Math.random()\<close> returns 0, so that nothing is spawned.\<close>

definition frame_at :: "real \<Rightarrow> frame" where
  "frame_at t = \<lparr>time = t, rnd_spawn = 0, rnd_x = 0, rnd_y = 0\<rparr>"

text \<open>An electron on the track at \<open>p\<close>, and a state holding the given populations.\<close>

definition electron_at :: "real \<Rightarrow> electron" where
  "electron_at p = \<lparr>trackPos = p, transversePos = 0, vx = 1, vy = 1, vfreq = ''0.30s''\<rparr>"

definition state_of ::
    "bool \<Rightarrow> bool \<Rightarrow> real \<Rightarrow> electron list \<Rightarrow> batteryElectron list \<Rightarrow> real \<Rightarrow> real \<Rightarrow> sim" where
  "state_of isClosed isDead h es bes lastT lastS =
    \<lparr>isCircuitClosed = isClosed, isBatteryDead = isDead, electrolyteHeight = h,
     visibleIons = h, electrons = es, batteryElectrons = bes, lastTimeRef = lastT,
     batteryElectronIdCounter = length bes, lastSecond = lastS\<rparr>"

section \<open>Properties\<close>

lemmas consts_defs =
  OUTER_W_def OUTER_H_def CONDUCTOR_W_def TRACK_W_def TRACK_H_def PERIMETER_def
  ELECTRON_COUNT_def SPEED_PX_S_def ELECTROLYTE_DRAIN_S_def ION_DRAIN_S_def RAIL_OFFSET_def

lemmas fixture_defs = frame_at_def electron_at_def state_of_def init_def

subsection \<open>What one frame does to each part of the state\<close>

lemma commit_fields:
  "isCircuitClosed (commit a b) = isCircuitClosed b"
  "isBatteryDead (commit a b) = isBatteryDead b"
  "electrolyteHeight (commit a b) = electrolyteHeight b"
  "visibleIons (commit a b) = visibleIons b"
  "electrons (commit a b) = electrons b"
  "batteryElectrons (commit a b) = batteryElectrons b"
  "lastTimeRef (commit a b) = lastTimeRef b"
  "batteryElectronIdCounter (commit a b) = batteryElectronIdCounter b"
  by (simp_all add: commit_def)

lemma spawn_fields:
  "isCircuitClosed (spawn f s) = isCircuitClosed s"
  "isBatteryDead (spawn f s) = isBatteryDead s"
  "electrolyteHeight (spawn f s) = electrolyteHeight s"
  "visibleIons (spawn f s) = visibleIons s"
  "electrons (spawn f s) = electrons s"
  "lastTimeRef (spawn f s) = lastTimeRef s"
  "lastSecond (spawn f s) = lastSecond s"
  by (simp_all add: spawn_def)

lemma closed_loop: "isCircuitClosed (loop f s) = isCircuitClosed s"
  by (simp add: loop_def Let_def spawn_fields deplete_def)

lemma lastTimeRef_loop: "lastTimeRef (loop f s) = time f"
  by (simp add: loop_def Let_def spawn_fields deplete_def)

lemma height_loop:
  "electrolyteHeight (loop f s) =
    (if depletes f s then max 0 (electrolyteHeight s - ELECTROLYTE_DRAIN_S)
     else electrolyteHeight s)"
  by (simp add: loop_def Let_def spawn_fields deplete_def depletes_def)

lemma ions_loop:
  "visibleIons (loop f s) =
    (if depletes f s then max 0 (visibleIons s - ION_DRAIN_S) else visibleIons s)"
  by (simp add: loop_def Let_def spawn_fields deplete_def depletes_def)

lemma dead_loop:
  "isBatteryDead (loop f s) =
    (isBatteryDead s \<or> depletes f s \<and> max 0 (electrolyteHeight s - ELECTROLYTE_DRAIN_S) = 0)"
  by (auto simp add: loop_def Let_def spawn_fields deplete_def depletes_def)

lemma lastSecond_loop:
  "lastSecond (loop f s) = (if depletes f s then time f else lastSecond s)"
  by (simp add: loop_def Let_def spawn_fields deplete_def depletes_def)

lemma electrons_loop:
  "electrons (loop f s) =
    (if isCircuitClosed s \<and> \<not> isBatteryDead s
     then map (moveElectron (deltaTime (time f) s)) (electrons s) else electrons s)"
  by (simp add: loop_def Let_def spawn_fields deplete_def)

lemma electrons_tick: "electrons (tick f s) = electrons (loop f s)"
  by (simp add: tick_def commit_fields)

lemmas tick_fields =
  closed_loop lastTimeRef_loop height_loop ions_loop dead_loop electrons_loop commit_fields

subsection \<open>Track geometry\<close>

lemma px_getXY_lipschitz: "\<bar>px (getXY p) - px (getXY q)\<bar> \<le> \<bar>p - q\<bar>"
  by (auto simp add: getXY_def consts_defs)

lemma py_getXY_lipschitz: "\<bar>py (getXY p) - py (getXY q)\<bar> \<le> \<bar>p - q\<bar>"
  by (auto simp add: getXY_def consts_defs)

lemma lipschitz_isCont:
  fixes g :: "real \<Rightarrow> real"
  assumes lip: "\<And>p q. \<bar>g p - g q\<bar> \<le> \<bar>p - q\<bar>"
  shows "isCont g a"
  unfolding isCont_def LIM_eq
proof (intro allI impI)
  fix r :: real
  assume r: "0 < r"
  have "\<forall>x. x \<noteq> a \<and> norm (x - a) < r \<longrightarrow> norm (g x - g a) < r"
  proof (intro allI impI)
    fix x
    assume "x \<noteq> a \<and> norm (x - a) < r"
    then have "\<bar>x - a\<bar> < r" by simp
    with lip[of x a] show "norm (g x - g a) < r" by simp
  qed
  with r show "\<exists>d>0. \<forall>x. x \<noteq> a \<and> norm (x - a) < d \<longrightarrow> norm (g x - g a) < r"
    by blast
qed

text \<open>
  C6, as stated, fails: \<open>getXY 0\<close> lies on the top segment (angle 0, horizontal), while
  \<open>getXY PERIMETER\<close> falls into the last branch, the left segment (angle 270, vertical).
\<close>

theorem getXY_periodicity_counterexample:
  "angle (getXY 0) = 0 \<and> angle (getXY PERIMETER) = 270 \<and> isHorizontal (getXY 0)
   \<and> \<not> isHorizontal (getXY PERIMETER) \<and> getXY 0 \<noteq> getXY PERIMETER"
  by (simp add: getXY_def consts_defs)

text \<open>
  C6, amended: the point \<open>(x, y)\<close> of \<open>getXY 0\<close> equals that of \<open>getXY PERIMETER\<close>, and
  both coordinates are continuous functions of the track position, at every position
  and so at the segment boundaries 635, 1020, 1655 and 2040.
\<close>

theorem getXY_point_periodic_continuous:
  "px (getXY 0) = px (getXY PERIMETER) \<and> py (getXY 0) = py (getXY PERIMETER)
   \<and> (\<forall>b. isCont (\<lambda>p. px (getXY p)) b \<and> isCont (\<lambda>p. py (getXY p)) b)
   \<and> TRACK_W = 635 \<and> TRACK_W + TRACK_H = 1020 \<and> 2 * TRACK_W + TRACK_H = 1655
   \<and> PERIMETER = 2040"
proof -
  have "px (getXY 0) = px (getXY PERIMETER) \<and> py (getXY 0) = py (getXY PERIMETER)"
    by (simp add: getXY_def consts_defs)
  moreover have "isCont (\<lambda>p. px (getXY p)) b" for b
    by (rule lipschitz_isCont) (rule px_getXY_lipschitz)
  moreover have "isCont (\<lambda>p. py (getXY p)) b" for b
    by (rule lipschitz_isCont) (rule py_getXY_lipschitz)
  ultimately show ?thesis
    by (simp add: consts_defs)
qed

subsection \<open>The toggle\<close>

text \<open>
  C2, as stated, fails: the reset branch of \<open>handleToggle\<close> restores the electrolyte
  height and the ion count to 75, the values the hooks start with, not to 100.
\<close>

theorem reset_to_100_counterexample:
  "electrolyteHeight (handleToggle (state_of True True 0 [] [] 16000 15000)) \<noteq> 100
   \<and> visibleIons (handleToggle (state_of True True 0 [] [] 16000 15000)) \<noteq> 100"
  by (simp add: handleToggle_def state_of_def)

text \<open>
  C2, amended: from every state in which the battery is dead, the toggle yields
  \<open>electrolyteHeight = 75\<close>, \<open>visibleIons = 75\<close>, \<open>isBatteryDead = false\<close> and
  \<open>isCircuitClosed = false\<close>; the same holds after the render that follows.
\<close>

theorem reset_yields_initial_battery:
  assumes "isBatteryDead s"
  shows "electrolyteHeight (handleToggle s) = 75 \<and> visibleIons (handleToggle s) = 75
    \<and> \<not> isBatteryDead (handleToggle s) \<and> \<not> isCircuitClosed (handleToggle s)
    \<and> electrolyteHeight (click s) = 75 \<and> visibleIons (click s) = 75
    \<and> \<not> isBatteryDead (click s) \<and> \<not> isCircuitClosed (click s)"
  using assms by (simp add: handleToggle_def click_def commit_def)

theorem reset_yields_initial_battery_witness:
  "isBatteryDead (state_of True True 0 [] [] 16000 15000)
   \<and> electrolyteHeight (handleToggle (state_of True True 0 [] [] 16000 15000)) = 75
   \<and> visibleIons (click (state_of True True 0 [] [] 16000 15000)) = 75
   \<and> \<not> isCircuitClosed (click (state_of True True 0 [] [] 16000 15000))"
proof -
  have dead: "isBatteryDead (state_of True True 0 [] [] 16000 15000)"
    by (simp add: state_of_def)
  from reset_yields_initial_battery [OF dead] dead show ?thesis
    by simp
qed

text \<open>
  C8: the toggle taken while the battery is dead restores the battery to the values of
  the initial state and opens the circuit, whatever \<open>isCircuitClosed\<close> was; the toggle
  taken while the battery is not dead negates \<open>isCircuitClosed\<close> and leaves every other
  field as it was. (The render that follows the toggle restarts the effect, whose local
  \<open>lastSecond\<close> starts again at 0; the hooks and refs are as \<open>handleToggle\<close> left them.)
\<close>

theorem toggle_frame:
  "(isBatteryDead s \<longrightarrow>
      \<not> isCircuitClosed (handleToggle s) \<and> \<not> isBatteryDead (handleToggle s)
      \<and> electrolyteHeight (handleToggle s) = electrolyteHeight (init es)
      \<and> visibleIons (handleToggle s) = visibleIons (init es))
   \<and> (\<not> isBatteryDead s' \<longrightarrow>
      isCircuitClosed (handleToggle s') = (\<not> isCircuitClosed s')
      \<and> handleToggle s' = s'\<lparr>isCircuitClosed := \<not> isCircuitClosed s'\<rparr>
      \<and> electrolyteHeight (handleToggle s') = electrolyteHeight s'
      \<and> visibleIons (handleToggle s') = visibleIons s'
      \<and> isBatteryDead (handleToggle s') = isBatteryDead s'
      \<and> electrons (handleToggle s') = electrons s'
      \<and> batteryElectrons (handleToggle s') = batteryElectrons s'
      \<and> electrolyteHeight (click s') = electrolyteHeight s'
      \<and> visibleIons (click s') = visibleIons s'
      \<and> isBatteryDead (click s') = isBatteryDead s'
      \<and> electrons (click s') = electrons s'
      \<and> batteryElectrons (click s') = batteryElectrons s'
      \<and> isCircuitClosed (click s') = (\<not> isCircuitClosed s'))"
  by (simp add: handleToggle_def click_def commit_def init_def)

theorem toggle_frame_witness:
  "isBatteryDead (state_of True True 0 [] [] 16000 15000)
   \<and> \<not> isCircuitClosed (handleToggle (state_of True True 0 [] [] 16000 15000))
   \<and> electrolyteHeight (handleToggle (state_of True True 0 [] [] 16000 15000)) = 75
   \<and> \<not> isBatteryDead (state_of True False 40 [electron_at 7] [] 16000 15000)
   \<and> \<not> isCircuitClosed (handleToggle (state_of True False 40 [electron_at 7] [] 16000 15000))
   \<and> electrolyteHeight (click (state_of True False 40 [electron_at 7] [] 16000 15000)) = 40
   \<and> electrons (click (state_of True False 40 [electron_at 7] [] 16000 15000)) = [electron_at 7]"
  using toggle_frame [of "state_of True True 0 [] [] 16000 15000" "[]"
      "state_of True False 40 [electron_at 7] [] 16000 15000"]
  by (simp add: state_of_def init_def)

subsection \<open>Advancement of the electrons on the track\<close>

lemma js_rem_nonneg:
  assumes "0 \<le> a" and "0 < b"
  shows "js_rem a b = a - b * of_int \<lfloor>a / b\<rfloor>" and "0 \<le> js_rem a b" and "js_rem a b < b"
proof -
  from assms have q: "0 \<le> a / b" by simp
  then show eq: "js_rem a b = a - b * of_int \<lfloor>a / b\<rfloor>"
    by (simp add: js_rem_def trunc_def)
  have "of_int \<lfloor>a / b\<rfloor> * b \<le> (a / b) * b"
    by (rule mult_right_mono) (use \<open>0 < b\<close> in simp_all)
  with \<open>0 < b\<close> have "b * of_int \<lfloor>a / b\<rfloor> \<le> a"
    by (simp add: mult.commute)
  with eq show "0 \<le> js_rem a b" by simp
  have "(a / b) * b < (of_int \<lfloor>a / b\<rfloor> + 1) * b"
    by (rule mult_strict_right_mono) (use \<open>0 < b\<close> in simp_all)
  with \<open>0 < b\<close> have "a < (of_int \<lfloor>a / b\<rfloor> + 1) * b"
    by simp
  with eq show "js_rem a b < b" by (simp add: algebra_simps)
qed

text \<open>
  C9: in a frame that finds the circuit closed and the battery not dead, every electron's
  \<open>trackPos\<close> becomes \<open>(trackPos + SPEED_PX_S * deltaTime) % PERIMETER\<close>, with the one
  speed 20 for all of them and nothing else of the electron changed; for a non-negative
  sum, \<open>%\<close> is the remainder modulo \<open>PERIMETER = 2040\<close>. In any other frame the electrons
  are unchanged. With one second elapsed, an electron at 2030 moves to 10.
\<close>

theorem electrons_advance:
  "(energized s \<longrightarrow>
      electrons (loop f s) =
        map (\<lambda>e. e\<lparr>trackPos := js_rem (trackPos e + SPEED_PX_S * deltaTime (time f) s) PERIMETER\<rparr>)
          (electrons s))
   \<and> (\<not> energized s' \<longrightarrow> electrons (loop f s') = electrons s')
   \<and> (0 \<le> a \<longrightarrow> js_rem a PERIMETER = a - PERIMETER * of_int \<lfloor>a / PERIMETER\<rfloor>)
   \<and> SPEED_PX_S = 20 \<and> PERIMETER = 2040
   \<and> deltaTime 2000 (state_of True False 75 [electron_at 2030] [] 1000 1000) = 1
   \<and> electrons (loop (frame_at 2000) (state_of True False 75 [electron_at 2030] [] 1000 1000))
       = [electron_at 10]"
proof -
  have "0 \<le> a \<Longrightarrow> js_rem a PERIMETER = a - PERIMETER * of_int \<lfloor>a / PERIMETER\<rfloor>"
    by (rule js_rem_nonneg(1)) (simp_all add: consts_defs)
  moreover have "electrons (loop (frame_at 2000) (state_of True False 75 [electron_at 2030] [] 1000 1000))
       = [electron_at 10]"
    by (simp add: electrons_loop moveElectron_def deltaTime_def fixture_defs js_rem_def trunc_def
        consts_defs)
  moreover have "deltaTime 2000 (state_of True False 75 [electron_at 2030] [] 1000 1000) = 1"
    by (simp add: deltaTime_def state_of_def)
  ultimately show ?thesis
    by (simp add: electrons_loop energized_def moveElectron_def consts_defs)
qed

theorem electrons_advance_witness:
  "energized (state_of True False 75 [electron_at 100] [] 1000 1000)
   \<and> map trackPos (electrons (loop (frame_at 1500)
        (state_of True False 75 [electron_at 100] [] 1000 1000))) = [110]
   \<and> \<not> energized (state_of False False 75 [electron_at 100] [] 1000 1000)
   \<and> map trackPos (electrons (loop (frame_at 1500)
        (state_of False False 75 [electron_at 100] [] 1000 1000))) = [100]
   \<and> js_rem 2050 PERIMETER = 10"
  using electrons_advance [of "state_of True False 75 [electron_at 100] [] 1000 1000"
      "frame_at 1500" "state_of False False 75 [electron_at 100] [] 1000 1000" 2050]
  by (simp add: energized_def deltaTime_def fixture_defs js_rem_def trunc_def consts_defs)

subsection \<open>Electrolyte height and ion count\<close>

lemma step_keeps_levels_equal:
  "electrolyteHeight s = visibleIons s \<Longrightarrow>
   electrolyteHeight (step e s) = visibleIons (step e s)"
  by (cases e)
    (simp_all add: tick_def click_def commit_fields height_loop ions_loop handleToggle_def
      consts_defs)

lemma run_keeps_levels_equal:
  "electrolyteHeight s = visibleIons s \<Longrightarrow>
   electrolyteHeight (run evs s) = visibleIons (run evs s)"
  by (induction evs arbitrary: s) (simp_all add: step_keeps_levels_equal)

text \<open>
  C10: in every state reached from the initial state by frames and toggles, the
  electrolyte height equals the ion count: both start at 75, both drain rates are 5, a
  frame lowers both in the same depletion step, with the floor 0, or leaves both as
  they are, the toggle taken while the battery is dead sets both to 75, and the toggle
  taken otherwise changes neither.
\<close>

theorem levels_equal_in_reachable_states:
  "electrolyteHeight (run evs (init es)) = visibleIons (run evs (init es))
   \<and> electrolyteHeight (init es) = 75 \<and> visibleIons (init es) = 75
   \<and> ELECTROLYTE_DRAIN_S = 5 \<and> ION_DRAIN_S = 5
   \<and> electrolyteHeight (deplete t s) = max 0 (electrolyteHeight s - 5)
   \<and> visibleIons (deplete t s) = max 0 (visibleIons s - 5)
   \<and> electrolyteHeight (tick f s) =
        (if depletes f s then max 0 (electrolyteHeight s - 5) else electrolyteHeight s)
   \<and> visibleIons (tick f s) =
        (if depletes f s then max 0 (visibleIons s - 5) else visibleIons s)
   \<and> (isBatteryDead r \<longrightarrow>
        electrolyteHeight (handleToggle r) = 75 \<and> visibleIons (handleToggle r) = 75
        \<and> electrolyteHeight (click r) = 75 \<and> visibleIons (click r) = 75)
   \<and> (\<not> isBatteryDead r' \<longrightarrow>
        electrolyteHeight (click r') = electrolyteHeight r'
        \<and> visibleIons (click r') = visibleIons r')"
proof -
  have "electrolyteHeight (init es) = visibleIons (init es)"
    by (simp add: init_def)
  then have "electrolyteHeight (run evs (init es)) = visibleIons (run evs (init es))"
    by (rule run_keeps_levels_equal)
  moreover have "electrolyteHeight (tick f s) =
        (if depletes f s then max 0 (electrolyteHeight s - 5) else electrolyteHeight s)"
    and "visibleIons (tick f s) =
        (if depletes f s then max 0 (visibleIons s - 5) else visibleIons s)"
    by (simp_all add: tick_def commit_fields height_loop ions_loop consts_defs)
  moreover have "isBatteryDead r \<longrightarrow>
        electrolyteHeight (handleToggle r) = 75 \<and> visibleIons (handleToggle r) = 75
        \<and> electrolyteHeight (click r) = 75 \<and> visibleIons (click r) = 75"
    by (simp add: click_def commit_fields handleToggle_def)
  moreover have "\<not> isBatteryDead r' \<longrightarrow>
        electrolyteHeight (click r') = electrolyteHeight r'
        \<and> visibleIons (click r') = visibleIons r'"
    by (simp add: click_def commit_fields handleToggle_def)
  ultimately show ?thesis
    by (simp add: init_def deplete_def Let_def consts_defs)
qed

theorem levels_equal_in_reachable_states_witness:
  "isBatteryDead (state_of True True 0 [] [] 16000 15000)
   \<and> electrolyteHeight (state_of True True 0 [] [] 16000 15000) = 0
   \<and> electrolyteHeight (click (state_of True True 0 [] [] 16000 15000)) = 75
   \<and> visibleIons (click (state_of True True 0 [] [] 16000 15000)) = 75
   \<and> \<not> isBatteryDead (state_of True False 40 [] [] 16000 15000)
   \<and> electrolyteHeight (click (state_of True False 40 [] [] 16000 15000)) = 40
   \<and> visibleIons (click (state_of True False 40 [] [] 16000 15000)) = 40
   \<and> electrolyteHeight (run [Click, Frame (frame_at 1000), Frame (frame_at 2000)] (init [])) =
       visibleIons (run [Click, Frame (frame_at 1000), Frame (frame_at 2000)] (init []))"
proof -
  have a: "isBatteryDead (state_of True True 0 [] [] 16000 15000)
      \<and> electrolyteHeight (state_of True True 0 [] [] 16000 15000) = 0
      \<and> \<not> isBatteryDead (state_of True False 40 [] [] 16000 15000)
      \<and> electrolyteHeight (state_of True False 40 [] [] 16000 15000) = 40
      \<and> visibleIons (state_of True False 40 [] [] 16000 15000) = 40"
    by (simp add: state_of_def)
  from levels_equal_in_reachable_states [of
      "[Click, Frame (frame_at 1000), Frame (frame_at 2000)]" "[]" _ _ _
      "state_of True True 0 [] [] 16000 15000" "state_of True False 40 [] [] 16000 15000"] a
  show ?thesis
    by (simp del: run.simps)
qed

subsection \<open>Order of the steps within a frame\<close>

text \<open>
  C3, as stated, fails: \<open>loop\<close> tests \<open>isCircuitClosed && !isBatteryDead\<close> first, then
  moves the electrons, and only then runs the depletion step. In the frame whose
  depletion step sets \<open>isBatteryDead\<close>, the electrons have moved: here from 100 to 120.
\<close>

theorem depletion_stops_motion_same_frame_counterexample:
  "\<not> isBatteryDead (state_of True False 5 [electron_at 100] [] 1000 1000)
   \<and> isBatteryDead (tick (frame_at 2000) (state_of True False 5 [electron_at 100] [] 1000 1000))
   \<and> electrons (state_of True False 5 [electron_at 100] [] 1000 1000) = [electron_at 100]
   \<and> electrons (tick (frame_at 2000) (state_of True False 5 [electron_at 100] [] 1000 1000))
       = [electron_at 120]"
  by (simp add: tick_def tick_fields depletes_def moveElectron_def deltaTime_def fixture_defs
      js_rem_def trunc_def consts_defs)

text \<open>
  C3, amended: within a frame the flags are read once, as they were when the frame
  began; the electrons advance before the depletion step runs. So in the frame whose
  depletion step sets \<open>isBatteryDead\<close> the electrons still advance by
  \<open>SPEED_PX_S * deltaTime\<close>, and they stand still from the next frame on.
\<close>

theorem depletion_stops_motion_next_frame:
  assumes "\<not> isBatteryDead s" and "isBatteryDead (tick f s)"
  shows "electrons (tick f s) = map (moveElectron (deltaTime (time f) s)) (electrons s)
    \<and> electrons (tick g (tick f s)) = electrons (tick f s)"
proof -
  from assms have closed: "isCircuitClosed s"
    by (simp add: tick_def commit_fields dead_loop depletes_def)
  with assms(1) have "electrons (tick f s) = map (moveElectron (deltaTime (time f) s)) (electrons s)"
    by (simp add: electrons_tick electrons_loop)
  moreover from assms(2) have "electrons (tick g (tick f s)) = electrons (tick f s)"
    by (simp add: electrons_tick [of g] electrons_loop [of g])
  ultimately show ?thesis by simp
qed

theorem depletion_stops_motion_next_frame_witness:
  "\<not> isBatteryDead (state_of True False 5 [electron_at 100] [] 1000 1000)
   \<and> isBatteryDead (tick (frame_at 2000) (state_of True False 5 [electron_at 100] [] 1000 1000))
   \<and> electrons (tick (frame_at 2000) (state_of True False 5 [electron_at 100] [] 1000 1000))
       = map (moveElectron 1) [electron_at 100]
   \<and> electrons (tick (frame_at 3000)
        (tick (frame_at 2000) (state_of True False 5 [electron_at 100] [] 1000 1000)))
       = electrons (tick (frame_at 2000) (state_of True False 5 [electron_at 100] [] 1000 1000))"
proof -
  have a: "\<not> isBatteryDead (state_of True False 5 [electron_at 100] [] 1000 1000)"
    by (simp add: state_of_def)
  have b: "isBatteryDead (tick (frame_at 2000) (state_of True False 5 [electron_at 100] [] 1000 1000))"
    by (simp add: tick_def commit_fields dead_loop depletes_def fixture_defs consts_defs)
  have c: "deltaTime (time (frame_at 2000)) (state_of True False 5 [electron_at 100] [] 1000 1000) = 1"
    by (simp add: deltaTime_def fixture_defs)
  from depletion_stops_motion_next_frame [OF a b, of "frame_at 3000"] a b c show ?thesis
    by (simp add: state_of_def)
qed

subsection \<open>The baseline of the elapsed time\<close>

text \<open>
  C4, as stated, fails: a change of \<open>isCircuitClosed\<close> or \<open>isBatteryDead\<close> restarts the
  effect, which re-initialises its local \<open>lastSecond\<close>, but \<open>lastTimeRef\<close> is a ref of
  the component and is not reset. After a frame at 1000 ms and a toggle, a frame at
  3000 ms measures 2 seconds.
\<close>

theorem zero_elapsed_after_transition_counterexample:
  "isCircuitClosed (run [Frame (frame_at 1000)] (init []))
     \<noteq> isCircuitClosed (run [Frame (frame_at 1000), Click] (init []))
   \<and> deltaTime 3000 (run [Frame (frame_at 1000), Click] (init [])) = 2"
  by (simp add: tick_def click_def tick_fields depletes_def handleToggle_def deltaTime_def
      fixture_defs)

text \<open>
  C4, amended: the first frame after start, and any frame that finds the baseline
  \<open>lastTimeRef\<close> at 0, measures zero elapsed time. Every frame sets the baseline to its
  own timestamp, and neither the toggle nor the restart of the effect changes it: the
  frame that follows a transition measures the time since the previous frame. What a
  transition re-initialises is \<open>lastSecond\<close>, the baseline of the depletion step.
\<close>

theorem elapsed_time_baseline:
  "deltaTime t (init es) = 0
   \<and> (lastTimeRef s = 0 \<longrightarrow> deltaTime t s = 0)
   \<and> lastTimeRef (tick f s) = time f
   \<and> lastTimeRef (click s) = lastTimeRef s
   \<and> deltaTime t (click s) = deltaTime t s
   \<and> (time f \<noteq> 0 \<longrightarrow> deltaTime t (tick f s) = (t - time f) / 1000)
   \<and> lastSecond (click s) = 0
   \<and> (isBatteryDead (tick f s) \<noteq> isBatteryDead s \<longrightarrow> lastSecond (tick f s) = 0)"
proof -
  have "lastTimeRef (click s) = lastTimeRef s"
    by (simp add: click_def commit_fields handleToggle_def)
  moreover have "lastSecond (click s) = 0"
    by (simp add: click_def commit_def handleToggle_def)
  moreover have "isBatteryDead (tick f s) \<noteq> isBatteryDead s \<longrightarrow> lastSecond (tick f s) = 0"
    by (simp add: tick_def commit_def)
  moreover have "lastTimeRef (tick f s) = time f"
    by (simp add: tick_def commit_fields lastTimeRef_loop)
  ultimately show ?thesis
    by (simp add: deltaTime_def init_def)
qed

theorem elapsed_time_baseline_witness:
  "lastTimeRef (init []) = 0 \<and> deltaTime 1000 (init []) = 0
   \<and> time (frame_at 2000) \<noteq> 0
   \<and> deltaTime 3000 (tick (frame_at 2000) (state_of True False 5 [] [] 1000 1000)) = 1
   \<and> isBatteryDead (tick (frame_at 2000) (state_of True False 5 [] [] 1000 1000))
       \<noteq> isBatteryDead (state_of True False 5 [] [] 1000 1000)
   \<and> lastSecond (tick (frame_at 2000) (state_of True False 5 [] [] 1000 1000)) = 0"
proof -
  have a: "isBatteryDead (tick (frame_at 2000) (state_of True False 5 [] [] 1000 1000))
       \<noteq> isBatteryDead (state_of True False 5 [] [] 1000 1000)"
    by (simp add: tick_def commit_fields dead_loop depletes_def fixture_defs consts_defs)
  have b: "lastTimeRef (init []) = 0 \<and> time (frame_at 2000) \<noteq> 0"
    by (simp add: fixture_defs)
  from elapsed_time_baseline [of 1000 "[]" "init []" "frame_at 2000"]
    elapsed_time_baseline [of 3000 "[]" "state_of True False 5 [] [] 1000 1000" "frame_at 2000"]
    a b
  show ?thesis by (simp add: frame_at_def)
qed

subsection \<open>Depletion of the battery\<close>

lemma height_tick:
  "electrolyteHeight (tick f s) =
    (if depletes f s then max 0 (electrolyteHeight s - ELECTROLYTE_DRAIN_S)
     else electrolyteHeight s)"
  by (simp add: tick_def commit_fields height_loop)

lemma dead_tick:
  "isBatteryDead (tick f s) =
    (isBatteryDead s \<or> depletes f s \<and> electrolyteHeight (tick f s) = 0)"
  by (simp add: tick_def commit_fields dead_loop height_loop)

lemma dead_no_depletion: "isBatteryDead s \<Longrightarrow> \<not> depletes f s"
  by (simp add: depletes_def)

lemma dead_stays:
  "isBatteryDead s \<Longrightarrow>
   isBatteryDead (ticks fs s) \<and> depletions fs s = 0
   \<and> electrolyteHeight (ticks fs s) = electrolyteHeight s"
proof (induction fs arbitrary: s)
  case Nil
  then show ?case by simp
next
  case (Cons f fs)
  from Cons.prems have "isBatteryDead (tick f s)"
    by (simp add: dead_tick)
  from Cons.IH [OF this] Cons.prems show ?case
    by (simp add: height_tick dead_no_depletion)
qed

lemma height_nonneg_tick: "0 \<le> electrolyteHeight s \<Longrightarrow> 0 \<le> electrolyteHeight (tick f s)"
  by (simp add: height_tick)

lemma height_after_ticks:
  "0 \<le> electrolyteHeight s \<Longrightarrow>
   electrolyteHeight (ticks fs s) =
     max 0 (electrolyteHeight s - ELECTROLYTE_DRAIN_S * real (depletions fs s))"
proof (induction fs arbitrary: s)
  case Nil
  then show ?case by simp
next
  case (Cons f fs)
  have "0 \<le> electrolyteHeight (tick f s)"
    using Cons.prems by (rule height_nonneg_tick)
  from Cons.IH [OF this] show ?case
    by (auto simp add: height_tick consts_defs algebra_simps max_def)
qed

lemma no_depletion_height:
  "depletions fs s = 0 \<Longrightarrow> electrolyteHeight (ticks fs s) = electrolyteHeight s"
proof (induction fs arbitrary: s)
  case Nil
  then show ?case by simp
next
  case (Cons f fs)
  from Cons.prems have "\<not> depletes f s" and "depletions fs (tick f s) = 0"
    by (simp_all split: if_splits)
  with Cons.IH [of "tick f s"] show ?case
    by (simp add: height_tick)
qed

lemma dead_after_ticks:
  "isBatteryDead (ticks fs s) =
    (isBatteryDead s \<or> 0 < depletions fs s \<and> electrolyteHeight (ticks fs s) = 0)"
proof (induction fs arbitrary: s)
  case Nil
  then show ?case by simp
next
  case (Cons f fs)
  show ?case
  proof (cases "isBatteryDead s")
    case True
    with dead_stays [OF True, of "f # fs"] show ?thesis by simp
  next
    case alive: False
    show ?thesis
    proof (cases "depletes f s")
      case True
      show ?thesis
      proof (cases "isBatteryDead (tick f s)")
        case True
        with \<open>depletes f s\<close> alive have "electrolyteHeight (tick f s) = 0"
          by (simp add: dead_tick)
        with dead_stays [OF True, of fs] \<open>depletes f s\<close> show ?thesis
          by simp
      next
        case False
        with \<open>depletes f s\<close> have h: "electrolyteHeight (tick f s) \<noteq> 0"
          by (simp add: dead_tick)
        have "depletions fs (tick f s) = 0 \<Longrightarrow> electrolyteHeight (ticks fs (tick f s)) \<noteq> 0"
          using h by (simp add: no_depletion_height)
        with Cons.IH [of "tick f s"] False \<open>depletes f s\<close> alive show ?thesis
          by auto
      qed
    next
      case False
      with alive have "\<not> isBatteryDead (tick f s)"
        by (simp add: dead_tick)
      with Cons.IH [of "tick f s"] False alive show ?thesis
        by simp
    qed
  qed
qed

text \<open>
  C1, as stated, fails. The electrolyte height starts at 75, not 100, and the depletion
  step does not count whole energized seconds: it runs in an energized frame whose
  timestamp is at least 1000 ms past \<open>lastSecond\<close>, and \<open>lastSecond\<close> is 0 when the
  effect starts. With the circuit closed and frames at 1000 ms and 2000 ms, one second
  apart, the depletion step has run twice and the height is 65, where the specification gives 95.
\<close>

theorem charge_after_seconds_counterexample:
  "electrolyteHeight (run [Click, Frame (frame_at 1000), Frame (frame_at 2000)] (init [])) = 65
   \<and> sum_list (deltas [frame_at 1000, frame_at 2000] (run [Click] (init []))) = 1
   \<and> electrolyteHeight (run [Click, Frame (frame_at 1000), Frame (frame_at 2000)] (init []))
       \<noteq> max 0 (100 - 1 * ELECTROLYTE_DRAIN_S)
   \<and> electrolyteHeight (init []) \<noteq> max 0 (100 - 0 * ELECTROLYTE_DRAIN_S)"
  by (simp add: tick_def click_def tick_fields lastSecond_loop depletes_def handleToggle_def
      commit_def deltaTime_def fixture_defs consts_defs)

text \<open>
  C1, amended: in every run of frames that starts with a non-negative electrolyte
  height \<open>h\<close> (75 initially and after a reset) and in which the depletion step runs \<open>k\<close>
  times, the electrolyte height is \<open>max 0 (h - 5 * k)\<close>; and \<open>isBatteryDead\<close> is true after
  the run exactly when it was true before or a depletion step of the run has brought the
  height to 0. So the flag is set in the very depletion step in which the height first
  reaches 0, not earlier and not later.
\<close>

theorem charge_after_depletions:
  assumes "0 \<le> electrolyteHeight s"
  shows "electrolyteHeight (ticks fs s) =
      max 0 (electrolyteHeight s - ELECTROLYTE_DRAIN_S * real (depletions fs s))
    \<and> isBatteryDead (ticks fs s) =
      (isBatteryDead s \<or> 0 < depletions fs s \<and> electrolyteHeight (ticks fs s) = 0)
    \<and> ELECTROLYTE_DRAIN_S = 5 \<and> electrolyteHeight (init es) = 75"
  using assms by (simp add: height_after_ticks dead_after_ticks [of fs s] consts_defs init_def)

theorem charge_after_depletions_witness:
  "0 \<le> electrolyteHeight (state_of True False 10 [] [] 1000 0)
   \<and> depletions [frame_at 2000, frame_at 2500, frame_at 3000]
        (state_of True False 10 [] [] 1000 0) = 2
   \<and> electrolyteHeight (ticks [frame_at 2000, frame_at 2500, frame_at 3000]
        (state_of True False 10 [] [] 1000 0)) = 0
   \<and> \<not> isBatteryDead (ticks [frame_at 2000, frame_at 2500] (state_of True False 10 [] [] 1000 0))
   \<and> isBatteryDead (ticks [frame_at 2000, frame_at 2500, frame_at 3000]
        (state_of True False 10 [] [] 1000 0))"
proof -
  have h: "0 \<le> electrolyteHeight (state_of True False 10 [] [] 1000 0)"
    by (simp add: state_of_def)
  have d2: "depletions [frame_at 2000, frame_at 2500] (state_of True False 10 [] [] 1000 0) = 1"
    by (simp add: tick_def tick_fields lastSecond_loop depletes_def commit_def fixture_defs
        consts_defs)
  have d3: "depletions [frame_at 2000, frame_at 2500, frame_at 3000]
        (state_of True False 10 [] [] 1000 0) = 2"
    by (simp add: tick_def tick_fields lastSecond_loop depletes_def commit_def fixture_defs
        consts_defs)
  have s: "\<not> isBatteryDead (state_of True False 10 [] [] 1000 0)
      \<and> electrolyteHeight (state_of True False 10 [] [] 1000 0) = 10"
    by (simp add: state_of_def)
  have two: "electrolyteHeight (ticks [frame_at 2000, frame_at 2500]
        (state_of True False 10 [] [] 1000 0)) = 5
      \<and> \<not> isBatteryDead (ticks [frame_at 2000, frame_at 2500]
        (state_of True False 10 [] [] 1000 0))"
    using charge_after_depletions [OF h, of "[frame_at 2000, frame_at 2500]"] d2 s
    by (simp add: ELECTROLYTE_DRAIN_S_def del: ticks.simps depletions.simps)
  have three: "electrolyteHeight (ticks [frame_at 2000, frame_at 2500, frame_at 3000]
        (state_of True False 10 [] [] 1000 0)) = 0
      \<and> isBatteryDead (ticks [frame_at 2000, frame_at 2500, frame_at 3000]
        (state_of True False 10 [] [] 1000 0))"
    using charge_after_depletions [OF h, of "[frame_at 2000, frame_at 2500, frame_at 3000]"] d3 s
    by (simp add: ELECTROLYTE_DRAIN_S_def del: ticks.simps depletions.simps)
  from h d3 two three show ?thesis
    by (simp del: ticks.simps depletions.simps)
qed

subsection \<open>The electrons stay on the track\<close>

lemma deltaTime_nonneg: "lastTimeRef s \<le> t \<Longrightarrow> 0 \<le> deltaTime t s"
  by (simp add: deltaTime_def)

lemma moveElectron_in_range:
  assumes "0 \<le> dt" and "0 \<le> trackPos e"
  shows "0 \<le> trackPos (moveElectron dt e) \<and> trackPos (moveElectron dt e) < PERIMETER"
proof -
  have "0 \<le> trackPos e + SPEED_PX_S * dt"
    using assms by (simp add: SPEED_PX_S_def)
  moreover have "0 < PERIMETER"
    by (simp add: consts_defs)
  ultimately have "0 \<le> js_rem (trackPos e + SPEED_PX_S * dt) PERIMETER
      \<and> js_rem (trackPos e + SPEED_PX_S * dt) PERIMETER < PERIMETER"
    by (intro conjI js_rem_nonneg(2) js_rem_nonneg(3))
  then show ?thesis
    by (simp add: moveElectron_def)
qed

lemma in_track_tick:
  assumes "in_track (electrons s)" and "lastTimeRef s \<le> time f"
  shows "in_track (electrons (tick f s))"
proof -
  have "0 \<le> deltaTime (time f) s"
    using assms(2) by (rule deltaTime_nonneg)
  with assms(1) show ?thesis
    by (auto simp add: electrons_tick electrons_loop in_track_def list_all_iff
        moveElectron_in_range)
qed

lemma click_keeps: "electrons (click s) = electrons s" "lastTimeRef (click s) = lastTimeRef s"
  by (simp_all add: click_def commit_fields handleToggle_def)

lemma lastTimeRef_tick: "lastTimeRef (tick f s) = time f"
  by (simp add: tick_def commit_fields lastTimeRef_loop)

text \<open>
  C5, as stated, fails: \<open>loop\<close> does not clamp the elapsed time, and \<open>%\<close> keeps the sign of
  its dividend. A frame whose timestamp lies one second before the baseline moves an
  electron from 5 to -15.
\<close>

theorem negative_delta_leaves_track_counterexample:
  "in_track (electrons (state_of True False 75 [electron_at 5] [] 2000 2000))
   \<and> deltaTime 1000 (state_of True False 75 [electron_at 5] [] 2000 2000) = - 1
   \<and> electrons (tick (frame_at 1000) (state_of True False 75 [electron_at 5] [] 2000 2000))
       = [electron_at (- 15)]
   \<and> \<not> in_track (electrons (tick (frame_at 1000)
        (state_of True False 75 [electron_at 5] [] 2000 2000)))"
  by (simp add: electrons_tick electrons_loop moveElectron_def deltaTime_def in_track_def
      fixture_defs js_rem_def trunc_def ceiling_def consts_defs)

text \<open>
  C5, amended: if every electron's \<open>trackPos\<close> lies in \<open>[0, PERIMETER)\<close> and no frame of
  the run has a timestamp before that of the frame before it (so that every elapsed time
  is zero or positive), then after every sequence of frames and toggles every electron's
  \<open>trackPos\<close> lies in \<open>[0, PERIMETER)\<close>, also after a wrap-around from a coordinate near
  \<open>PERIMETER\<close> with a large elapsed time. The elapsed time is used as it is computed.
\<close>

theorem electrons_stay_in_track:
  assumes "in_track (electrons s)" and "monotone_clock (lastTimeRef s) evs"
  shows "in_track (electrons (run evs s))"
  using assms
proof (induction evs arbitrary: s)
  case Nil
  then show ?case by simp
next
  case (Cons e evs)
  show ?case
  proof (cases e)
    case (Frame f)
    with Cons.prems have le: "lastTimeRef s \<le> time f"
      and rest: "monotone_clock (time f) evs"
      by simp_all
    from Cons.prems(1) le have "in_track (electrons (tick f s))"
      by (rule in_track_tick)
    moreover from rest have "monotone_clock (lastTimeRef (tick f s)) evs"
      by (simp add: lastTimeRef_tick)
    ultimately have "in_track (electrons (run evs (tick f s)))"
      by (rule Cons.IH)
    with Frame show ?thesis by simp
  next
    case Click
    with Cons.prems have "in_track (electrons (click s))"
      and "monotone_clock (lastTimeRef (click s)) evs"
      by (simp_all add: click_keeps)
    then have "in_track (electrons (run evs (click s)))"
      by (rule Cons.IH)
    with Click show ?thesis by simp
  qed
qed

theorem electrons_stay_in_track_witness:
  "in_track (electrons (state_of True False 75 [electron_at 2030] [] 1000 1000))
   \<and> monotone_clock (lastTimeRef (state_of True False 75 [electron_at 2030] [] 1000 1000))
        [Frame (frame_at 2000), Frame (frame_at 2000), Click, Click, Frame (frame_at 1002000)]
   \<and> in_track (electrons (run
        [Frame (frame_at 2000), Frame (frame_at 2000), Click, Click, Frame (frame_at 1002000)]
        (state_of True False 75 [electron_at 2030] [] 1000 1000)))
   \<and> map trackPos (electrons (run
        [Frame (frame_at 2000), Frame (frame_at 2000), Click, Click, Frame (frame_at 1002000)]
        (state_of True False 75 [electron_at 2030] [] 1000 1000))) = [1650]"
proof -
  have a: "in_track (electrons (state_of True False 75 [electron_at 2030] [] 1000 1000))"
    by (simp add: in_track_def fixture_defs consts_defs)
  have b: "monotone_clock (lastTimeRef (state_of True False 75 [electron_at 2030] [] 1000 1000))
        [Frame (frame_at 2000), Frame (frame_at 2000), Click, Click, Frame (frame_at 1002000)]"
    by (simp add: fixture_defs)
  have c: "map trackPos (electrons (run
        [Frame (frame_at 2000), Frame (frame_at 2000), Click, Click, Frame (frame_at 1002000)]
        (state_of True False 75 [electron_at 2030] [] 1000 1000))) = [1650]"
    by (simp add: tick_def click_def handleToggle_def tick_fields depletes_def lastSecond_loop
        commit_def moveElectron_def deltaTime_def fixture_defs js_rem_def trunc_def consts_defs)
  from electrons_stay_in_track [OF a b] a b c show ?thesis
    by (simp del: run.simps monotone_clock.simps)
qed

subsection \<open>Rounding to a double\<close>











subsection \<open>Rounding errors in the step of a battery electron\<close>














subsection \<open>The electrons emitted by the battery\<close>
























end
